theory Spec2Isabelle
  imports Complex_Main
begin

section \<open>Conventions of the embedding\<close>

text \<open>
  The program is \<^verbatim>\<open>src/App.py\<close>, a horse-race analyser built on pandas, numpy and
  scikit-learn. The embedding follows these conventions.

  \<^item> A Python \<^verbatim>\<open>float\<close> is an exact real number or NaN (type \<open>pyfloat\<close>); where the
    source cannot produce NaN the model uses \<open>real\<close> directly. Rounding and the
    infinities of IEEE arithmetic are outside the model.
  \<^item> A Python \<^verbatim>\<open>str\<close> is a list of code points. The type \<open>string\<close> of HOL has 256
    characters, so the model covers the code points below 256 (Latin-1); the character
    classes of Python (\<^verbatim>\<open>str.isdigit\<close>, \<^verbatim>\<open>str.isspace\<close>, \<^verbatim>\<open>\d\<close>) are written out on
    that range.
  \<^item> A raised exception is a value \<open>Inl e\<close> of a sum type.
  \<^item> Calls into code that is not part of the repository and cannot be written as a
    function of its arguments here (the builtins \<^verbatim>\<open>float\<close> and \<^verbatim>\<open>int\<close> on arbitrary
    text, the draws of \<^verbatim>\<open>np.random.normal\<close>, the fitting of the scikit-learn
    regressors) are parameters of the functions that call them; every theorem holds
    for every value of these parameters.
\<close>

datatype py_error = ValueError | KeyError

datatype pyfloat = Num real | NaN

text \<open>Comparisons of Python floats: every comparison with NaN is false.\<close>

fun pf_gt :: "pyfloat \<Rightarrow> real \<Rightarrow> bool" where
  "pf_gt (Num x) y = (x > y)"
| "pf_gt NaN y = False"

fun pf_lt :: "pyfloat \<Rightarrow> real \<Rightarrow> bool" where
  "pf_lt (Num x) y = (x < y)"
| "pf_lt NaN y = False"

text \<open>Arithmetic of Python floats: NaN propagates.\<close>

fun pf_add :: "pyfloat \<Rightarrow> pyfloat \<Rightarrow> pyfloat" where
  "pf_add (Num x) (Num y) = Num (x + y)"
| "pf_add _ _ = NaN"

fun pf_scale :: "pyfloat \<Rightarrow> real \<Rightarrow> pyfloat" where
  "pf_scale (Num x) k = Num (x * k)"
| "pf_scale NaN k = NaN"

fun pf_mul :: "pyfloat \<Rightarrow> pyfloat \<Rightarrow> pyfloat" where
  "pf_mul (Num x) (Num y) = Num (x * y)"
| "pf_mul _ _ = NaN"

subsection \<open>numpy and pandas reductions\<close>

text \<open>
  \<^verbatim>\<open>np.mean\<close>, \<^verbatim>\<open>np.var\<close> and \<^verbatim>\<open>np.std\<close> (population variance and deviation, \<^verbatim>\<open>ddof=0\<close>).
  On an empty array numpy returns NaN; every call of the model is on a non-empty list,
  as every call of the source guarded by its length test is.
\<close>

definition np_mean :: "real list \<Rightarrow> real" where
  "np_mean xs = sum_list xs / real (length xs)"

definition np_var :: "real list \<Rightarrow> real" where
  "np_var xs = np_mean (map (\<lambda>x. (x - np_mean xs) ^ 2) xs)"

definition np_std :: "real list \<Rightarrow> real" where
  "np_std xs = sqrt (np_var xs)"

definition np_clip :: "real \<Rightarrow> real \<Rightarrow> real \<Rightarrow> real" where
  "np_clip x lo hi = min (max x lo) hi"

text \<open>
  \<^verbatim>\<open>Series.mean()\<close> and \<^verbatim>\<open>Series.std()\<close> of pandas. The deviation is the sample
  deviation (\<^verbatim>\<open>ddof=1\<close>): it is NaN for fewer than two values, and the mean is NaN for
  none.
\<close>

definition pd_mean :: "real list \<Rightarrow> pyfloat" where
  "pd_mean xs = (if xs = [] then NaN else Num (sum_list xs / real (length xs)))"

definition pd_std :: "real list \<Rightarrow> pyfloat" where
  "pd_std xs =
     (if length xs < 2 then NaN
      else Num (sqrt (sum_list (map (\<lambda>x. (x - sum_list xs / real (length xs)) ^ 2) xs)
                      / real (length xs - 1))))"

section \<open>Form Parser: \<^verbatim>\<open>extract_music_features\<close>\<close>

text \<open>
  \<^verbatim>\<open>str.isdigit\<close> on the code points below 256: the ten decimal digits and the three
  superscript digits U+00B2, U+00B3 and U+00B9. \<^verbatim>\<open>int(c)\<close> accepts the decimal digits
  only and raises \<^verbatim>\<open>ValueError\<close> on a superscript digit.
\<close>

definition is_decimal :: "char \<Rightarrow> bool" where
  "is_decimal c = (48 \<le> (of_char c :: nat) \<and> (of_char c :: nat) \<le> 57)"

definition isdigit :: "char \<Rightarrow> bool" where
  "isdigit c = (is_decimal c \<or> c = CHR 0xB2 \<or> c = CHR 0xB3 \<or> c = CHR 0xB9)"

definition int_of_chr :: "char \<Rightarrow> py_error + nat" where
  "int_of_chr c = (if is_decimal c then Inr (of_char c - 48) else Inl ValueError)"

text \<open>
  \<^verbatim>\<open>positions = [int(c) for c in music if c.isdigit() and int(c) > 0]\<close>
\<close>

fun positions_of :: "string \<Rightarrow> py_error + nat list" where
  "positions_of [] = Inr []"
| "positions_of (c # cs) =
     (if isdigit c then
        (case int_of_chr c of
           Inl e \<Rightarrow> Inl e
         | Inr d \<Rightarrow>
             (if d > 0 then
                (case positions_of cs of Inl e \<Rightarrow> Inl e | Inr ps \<Rightarrow> Inr (d # ps))
              else positions_of cs))
      else positions_of cs)"

text \<open>
  Two character classes used to state what \<open>positions_of\<close> does: the digits
  \<^verbatim>\<open>1\<close> to \<^verbatim>\<open>9\<close>, and the superscript digits on which \<^verbatim>\<open>int\<close> raises.
\<close>

definition nonzero_digit :: "char \<Rightarrow> bool" where
  "nonzero_digit c = (49 \<le> (of_char c :: nat) \<and> (of_char c :: nat) \<le> 57)"

definition superscript_digit :: "char \<Rightarrow> bool" where
  "superscript_digit c = (c = CHR 0xB2 \<or> c = CHR 0xB3 \<or> c = CHR 0xB9)"

record form_summary =
  wins :: nat
  places :: nat
  total_races :: nat
  win_rate :: real
  place_rate :: real
  consistency :: real
  recent_form :: real
  best_position :: nat
  avg_position :: real
  position_variance :: real

definition default_summary :: form_summary where
  "default_summary =
     \<lparr>wins = 0, places = 0, total_races = 0, win_rate = 0, place_rate = 0,
      consistency = 0, recent_form = 0, best_position = 10, avg_position = 8,
      position_variance = 5\<rparr>"

text \<open>\<^verbatim>\<open>min(positions)\<close>, called on a non-empty list only.\<close>

fun py_min :: "nat list \<Rightarrow> nat" where
  "py_min [] = 0"
| "py_min (x # xs) = fold min xs x"

text \<open>The summary computed from a non-empty list of positions (lines 132 to 154).\<close>

definition summary_of :: "nat list \<Rightarrow> form_summary" where
  "summary_of positions =
     (let total = length positions;
          wins = length (filter (\<lambda>p. p = 1) positions);
          places = length (filter (\<lambda>p. p \<le> 3) positions);
          recent = take 3 positions;
          recent_form =
            (if recent \<noteq> [] then sum_list (map (\<lambda>p. 1 / real p) recent) / real (length recent)
             else 0);
          consistency =
            (if length positions > 1 then 1 / (np_std (map real positions) + 1) else 0)
      in \<lparr>wins = wins, places = places, total_races = total,
          win_rate = (if total > 0 then real wins / real total else 0),
          place_rate = (if total > 0 then real places / real total else 0),
          consistency = consistency,
          recent_form = recent_form,
          best_position = py_min positions,
          avg_position = np_mean (map real positions),
          position_variance = np_var (map real positions)\<rparr>)"

text \<open>
  The argument is \<open>None\<close> for a missing value (\<^verbatim>\<open>pd.isna\<close>) and \<open>Some s\<close> for a value
  whose \<^verbatim>\<open>str()\<close> is \<open>s\<close>.
\<close>

definition extract_music_features :: "string option \<Rightarrow> py_error + form_summary" where
  "extract_music_features music_str =
     (case music_str of
        None \<Rightarrow> Inr default_summary
      | Some music \<Rightarrow>
          (if music = [] then Inr default_summary
           else (case positions_of music of
                   Inl e \<Rightarrow> Inl e
                 | Inr positions \<Rightarrow>
                     (if positions = [] then Inr default_summary
                      else Inr (summary_of positions)))))"

text \<open>
  The consistency the specification describes: one over the population deviation plus
  one, for every non-empty list of positions.
\<close>

definition spec_consistency :: "nat list \<Rightarrow> real" where
  "spec_consistency positions = 1 / (np_std (map real positions) + 1)"

section \<open>Data preparation: \<^verbatim>\<open>safe_convert\<close> and \<^verbatim>\<open>prepare_data\<close>\<close>

text \<open>
  The raw table. A cell is \<open>None\<close> when pandas holds a missing value there
  (\<^verbatim>\<open>pd.isna\<close>) and \<open>Some s\<close> otherwise, \<open>s\<close> being the \<^verbatim>\<open>str()\<close> of the value. The
  columns of the source are named by a datatype: \<open>Numero_de_corde\<close> and \<open>Age_Sexe\<close>
  stand for the accented names of the source.
\<close>

datatype column = Nom | Numero_de_corde | Cote | Poids | Musique | Age_Sexe

type_synonym cell = "string option"

type_synonym raw_row = "column \<Rightarrow> cell"

record raw_table =
  raw_columns :: "column list"
  raw_rows :: "raw_row list"

text \<open>
  \<^verbatim>\<open>str.isspace\<close> on the code points below 256, \<^verbatim>\<open>str.strip()\<close> and
  \<^verbatim>\<open>.replace(',', '.')\<close>.
\<close>

definition isspace :: "char \<Rightarrow> bool" where
  "isspace c =
     (let n = (of_char c :: nat)
      in (9 \<le> n \<and> n \<le> 13) \<or> (28 \<le> n \<and> n \<le> 32) \<or> n = 133 \<or> n = 160)"

definition strip :: "string \<Rightarrow> string" where
  "strip s = rev (dropWhile isspace (rev (dropWhile isspace s)))"

definition replace_comma :: "string \<Rightarrow> string" where
  "replace_comma s = map (\<lambda>c. if c = CHR '','' then CHR ''.'' else c) s"

text \<open>
  \<^verbatim>\<open>safe_convert(value, convert_func, default)\<close>: the bare \<^verbatim>\<open>except\<close> turns every
  exception of the conversion into the default.
\<close>

definition safe_convert :: "cell \<Rightarrow> (string \<Rightarrow> py_error + 'a) \<Rightarrow> 'a \<Rightarrow> 'a" where
  "safe_convert v convert_func dflt =
     (case v of
        None \<Rightarrow> dflt
      | Some s \<Rightarrow>
          (case convert_func (strip (replace_comma s)) of
             Inl e \<Rightarrow> dflt
           | Inr x \<Rightarrow> x))"

text \<open>
  \<^verbatim>\<open>re.search(r'(\d+(?:[.,]\d+)?)', s)\<close>: the leftmost match starts at the first decimal
  digit, takes the longest run of digits, and then a separator with the digits after
  it when both are there. \<open>None\<close> is no match.
\<close>

definition re_search_number :: "string \<Rightarrow> string option" where
  "re_search_number s =
     (let t = dropWhile (\<lambda>c. \<not> is_decimal c) s;
          ip = takeWhile is_decimal t;
          rest = dropWhile is_decimal t
      in if t = [] then None
         else (case rest of
                 sep # after \<Rightarrow>
                   (if (sep = CHR ''.'' \<or> sep = CHR '','') \<and> takeWhile is_decimal after \<noteq> []
                    then Some (ip @ sep # takeWhile is_decimal after)
                    else Some ip)
               | [] \<Rightarrow> Some ip))"

text \<open>
  \<^verbatim>\<open>float\<close> on the text of such a match, the comma replaced by a point: digits, or
  digits, a point and digits.
\<close>

definition digits_value :: "string \<Rightarrow> nat" where
  "digits_value ds = foldl (\<lambda>a c. 10 * a + (of_char c - 48)) 0 ds"

definition decimal_value :: "string \<Rightarrow> real" where
  "decimal_value s =
     (let ip = takeWhile is_decimal s; fp = drop (length ip + 1) s
      in real (digits_value ip) + real (digits_value fp) / 10 ^ length fp)"

definition extract_weight :: "cell \<Rightarrow> real" where
  "extract_weight poids_str =
     (case poids_str of
        None \<Rightarrow> 60.0
      | Some s \<Rightarrow>
          (case re_search_number s of
             Some m \<Rightarrow> decimal_value (replace_comma m)
           | None \<Rightarrow> 60.0))"

record prepared_row =
  source_row :: raw_row
  odds_numeric :: pyfloat
  draw_numeric :: int
  weight_kg :: real

text \<open>
  The three columns \<^verbatim>\<open>prepare_data\<close> adds to a row. \<open>py_float\<close> and \<open>py_int\<close> are the
  builtins \<^verbatim>\<open>float\<close> and \<^verbatim>\<open>int\<close> on a string: \<open>Inl\<close> when they raise.
\<close>

definition convert_row ::
  "(string \<Rightarrow> py_error + pyfloat) \<Rightarrow> (string \<Rightarrow> py_error + int) \<Rightarrow> raw_row \<Rightarrow> prepared_row"
where
  "convert_row py_float py_int r =
     \<lparr>source_row = r,
      odds_numeric = safe_convert (r Cote) py_float (Num 999),
      draw_numeric = safe_convert (r Numero_de_corde) py_int 1,
      weight_kg = extract_weight (r Poids)\<rparr>"

text \<open>
  \<^verbatim>\<open>prepare_data\<close>: reading a column the table does not have raises \<^verbatim>\<open>KeyError\<close>; the
  rows whose odds are not greater than 0 are dropped.
\<close>

definition prepare_data ::
  "(string \<Rightarrow> py_error + pyfloat) \<Rightarrow> (string \<Rightarrow> py_error + int) \<Rightarrow> raw_table
     \<Rightarrow> py_error + prepared_row list"
where
  "prepare_data py_float py_int df =
     (if Cote \<notin> set (raw_columns df) \<or> Numero_de_corde \<notin> set (raw_columns df)
         \<or> Poids \<notin> set (raw_columns df)
      then Inl KeyError
      else Inr (filter (\<lambda>r. pf_gt (odds_numeric r) 0)
                  (map (convert_row py_float py_int) (raw_rows df))))"

section \<open>Race types and auto-detection\<close>

datatype race_type = PLAT | ATTELE_AUTOSTART | ATTELE_VOLTE

record race_config =
  optimal_draws :: "int list"
  weight_importance :: real

text \<open>The table \<^verbatim>\<open>CONFIGS\<close>, in the order of the source (the display texts left out).\<close>

definition CONFIGS :: "(race_type \<times> race_config) list" where
  "CONFIGS =
     [(PLAT, \<lparr>optimal_draws = [1, 2, 3, 4], weight_importance = 0.25\<rparr>),
      (ATTELE_AUTOSTART, \<lparr>optimal_draws = [4, 5, 6], weight_importance = 0.05\<rparr>),
      (ATTELE_VOLTE, \<lparr>optimal_draws = [], weight_importance = 0.05\<rparr>)]"

text \<open>
  \<^verbatim>\<open>auto_detect_race_type\<close>, on the column \<^verbatim>\<open>weight_kg\<close> of the prepared table. The
  calls that display the figures are left out.
\<close>

definition auto_detect_race_type :: "real list \<Rightarrow> race_type" where
  "auto_detect_race_type weights =
     (let weight_std = pd_std weights; weight_mean = pd_mean weights
      in if pf_gt weight_std 2.5 then PLAT
         else if pf_gt weight_mean 65 \<and> pf_lt weight_std 1.5 then ATTELE_AUTOSTART
         else PLAT)"

section \<open>Feature table and Ensemble Trainer\<close>

text \<open>
  A feature table: its column names and its rows, a row giving the cell of each column.
\<close>

record feature_table =
  columns :: "string list"
  rows :: "(string \<Rightarrow> pyfloat) list"

text \<open>\<^verbatim>\<open>features.fillna(0)\<close>, the last line of \<^verbatim>\<open>prepare_advanced_features\<close>.\<close>

definition fillna0 :: "feature_table \<Rightarrow> feature_table" where
  "fillna0 X = X\<lparr>rows := map (\<lambda>r c. (case r c of NaN \<Rightarrow> Num 0 | Num v \<Rightarrow> Num v)) (rows X)\<rparr>"

text \<open>
  The forty columns of the table \<^verbatim>\<open>features\<close> that lines 161 to 229 build, in their
  order.
\<close>

definition feature_names :: "string list" where
  "feature_names =
     [''odds_inv'', ''log_odds'', ''sqrt_odds'', ''odds_squared'',
      ''draw'', ''draw_normalized'', ''optimal_draw'', ''draw_distance_optimal'',
      ''weight'', ''weight_normalized'', ''weight_rank'', ''weight_advantage'',
      ''age'', ''is_mare'', ''is_stallion'', ''age_squared'', ''age_optimal'',
      ''music_wins'', ''music_places'', ''music_total_races'', ''music_win_rate'',
      ''music_place_rate'', ''music_consistency'', ''music_recent_form'',
      ''music_best_position'', ''music_avg_position'', ''music_position_variance'',
      ''odds_draw_interaction'', ''odds_weight_interaction'', ''age_weight_interaction'',
      ''form_odds_interaction'', ''consistency_weight'',
      ''odds_rank'', ''odds_percentile'', ''weight_percentile'',
      ''odds_z_score'', ''is_favorite'', ''is_outsider'',
      ''field_size'', ''competitive_index'']"

text \<open>
  Line 168, \<^verbatim>\<open>df['draw_numeric'] / df['draw_numeric'].max()\<close>, for a draw number \<open>d\<close> of a
  race whose largest draw number is \<open>m\<close>: the quotient of pandas is NaN for 0/0. For
  \<open>m = 0\<close> and \<open>d \<noteq> 0\<close> it is an infinity, which the embedding does not have:
  \<open>features_before_fillna\<close> gives no table there.
\<close>

definition draw_normalized :: "int \<Rightarrow> int \<Rightarrow> pyfloat" where
  "draw_normalized d m = (if m = 0 then NaN else Num (real_of_int d / real_of_int m))"

text \<open>
  One row of \<^verbatim>\<open>features\<close> before line 231. The cells of lines 161, 167, 168 and 211
  (\<^verbatim>\<open>odds_inv\<close>, \<^verbatim>\<open>draw\<close>, \<^verbatim>\<open>draw_normalized\<close>, \<^verbatim>\<open>odds_draw_interaction\<close>) are written
  out; the cells of the other columns are the parameter \<open>others\<close>.
\<close>

definition feature_row ::
  "(string \<Rightarrow> pyfloat) \<Rightarrow> real \<Rightarrow> int \<Rightarrow> int \<Rightarrow> string \<Rightarrow> pyfloat" where
  "feature_row others odds d m c =
     (if c = ''odds_inv'' then Num (1 / (odds + 0.1))
      else if c = ''draw'' then Num (real_of_int d)
      else if c = ''draw_normalized'' then draw_normalized d m
      else if c = ''odds_draw_interaction''
        then pf_mul (Num (1 / (odds + 0.1))) (draw_normalized d m)
      else others c)"

text \<open>
  The table \<^verbatim>\<open>features\<close> before line 231, for the columns \<^verbatim>\<open>odds_numeric\<close> and
  \<^verbatim>\<open>draw_numeric\<close> of the prepared table; \<open>others i\<close> gives the other cells of row \<open>i\<close>.
\<close>

definition features_before_fillna ::
  "(nat \<Rightarrow> string \<Rightarrow> pyfloat) \<Rightarrow> (real \<times> int) list \<Rightarrow> feature_table option" where
  "features_before_fillna others df =
     (let m = Max (set (map snd df))
      in if m = 0 \<and> (\<exists>e\<in>set df. snd e \<noteq> 0) then None
         else Some \<lparr>columns = feature_names,
                     rows = map (\<lambda>(i, odds, d). feature_row (others i) odds d m)
                              (enumerate 0 df)\<rparr>)"

text \<open>
  \<^verbatim>\<open>prepare_advanced_features\<close>: lines 158 to 229 build the table \<^verbatim>\<open>features\<close> (the
  parameter \<open>build_features\<close>, \<open>Inl\<close> when they raise), line 231 returns it with its
  missing cells set to 0.
\<close>

definition prepare_advanced_features ::
  "('d \<Rightarrow> race_type \<Rightarrow> py_error + feature_table) \<Rightarrow> 'd \<Rightarrow> race_type
     \<Rightarrow> py_error + feature_table"
where
  "prepare_advanced_features build_features df rt =
     (case build_features df rt of
        Inl e \<Rightarrow> Inl e
      | Inr features \<Rightarrow> Inr (fillna0 features))"

text \<open>\<^verbatim>\<open>X.isna().sum(axis=1)\<close> for one row.\<close>

definition isna_count :: "feature_table \<Rightarrow> (string \<Rightarrow> pyfloat) \<Rightarrow> nat" where
  "isna_count X r = length (filter (\<lambda>c. r c = NaN) (columns X))"

text \<open>
  \<^verbatim>\<open>calculate_prediction_confidence\<close>. With no column at all the quotient of the source
  is 0/0, that is NaN, for every row.
\<close>

definition calculate_prediction_confidence :: "real list \<Rightarrow> feature_table \<Rightarrow> pyfloat list" where
  "calculate_prediction_confidence predictions X =
     (if length predictions < 3 then replicate (length predictions) (Num 0.5)
      else
        (let pred_std = np_std predictions;
             confidence_base = 1 / (1 + pred_std)
         in map (\<lambda>r. if columns X = [] then NaN
                      else Num (np_clip
                             (confidence_base
                              * (1 - real (isna_count X r) / real (length (columns X)))) 0 1))
              (rows X)))"

record model_score =
  score_mean :: real
  score_std :: real
  fold_scores :: "real list"

text \<open>
  The synthetic target of \<^verbatim>\<open>train_and_predict\<close>; \<open>noise i\<close> is the draw of
  \<^verbatim>\<open>np.random.normal(0, 0.05, len(X))\<close> for row \<open>i\<close>. Reading a column the table does not
  have raises \<^verbatim>\<open>KeyError\<close>.
\<close>

definition y_synthetic :: "feature_table \<Rightarrow> (nat \<Rightarrow> real) \<Rightarrow> py_error + pyfloat list" where
  "y_synthetic X noise =
     (if set [''odds_inv'', ''music_win_rate'', ''music_recent_form'', ''weight_advantage'',
              ''optimal_draw''] \<subseteq> set (columns X)
      then Inr (map (\<lambda>i. let r = rows X ! i in
                      pf_add (pf_add (pf_add (pf_add (pf_add
                        (pf_scale (r ''odds_inv'') 0.4)
                        (pf_scale (r ''music_win_rate'') 0.2))
                        (pf_scale (r ''music_recent_form'') 0.2))
                        (pf_scale (r ''weight_advantage'') 0.1))
                        (pf_scale (r ''optimal_draw'') 0.1))
                        (Num (noise i)))
                 [0..<length (rows X)])
      else Inl KeyError)"

text \<open>
  \<^verbatim>\<open>train_and_predict\<close>. The parameter \<open>fit\<close> stands for lines 301 to 355: scaling,
  cross-validation, fitting of the base models and of the stacking model, and the
  weighted mean of their predictions. It returns \<^verbatim>\<open>final_predictions\<close> and
  \<^verbatim>\<open>self.cv_scores\<close>, or \<open>Inl\<close> when an exception leaves the method.
\<close>

definition train_and_predict ::
  "(nat \<Rightarrow> real)
     \<Rightarrow> (feature_table \<Rightarrow> pyfloat list \<Rightarrow> py_error + real list \<times> (string \<rightharpoonup> model_score))
     \<Rightarrow> feature_table
     \<Rightarrow> py_error + real list \<times> (string \<rightharpoonup> model_score) \<times> pyfloat list"
where
  "train_and_predict noise fit X =
     (if length (rows X) < 5
      then Inr (replicate (length (rows X)) 0, Map.empty, replicate (length (rows X)) (Num 0))
      else
        (case y_synthetic X noise of
           Inl e \<Rightarrow> Inl e
         | Inr y \<Rightarrow>
             (case fit X y of
                Inl e \<Rightarrow> Inl e
              | Inr (final_predictions, cv_scores) \<Rightarrow>
                  Inr (final_predictions, cv_scores,
                       calculate_prediction_confidence final_predictions X))))"

text \<open>
  The confidence the specification describes: the base confidence times the share of
  the row's cells that were not missing in the table before imputation, clipped.
\<close>

definition spec_confidence :: "real list \<Rightarrow> feature_table \<Rightarrow> pyfloat list" where
  "spec_confidence predictions features =
     map (\<lambda>r. Num (np_clip
                 (1 / (1 + np_std predictions)
                  * (1 - real (isna_count features r) / real (length (columns features)))) 0 1))
       (rows features)"

section \<open>Ranking and blend: the scoring part of \<^verbatim>\<open>main\<close>\<close>

text \<open>
  Min-max scaling as \<^verbatim>\<open>main\<close> does it twice: for the traditional score (lines 745 to
  747, on a table that has a row, since \<^verbatim>\<open>main\<close> returns before on an empty one) and
  for the predictions of the trainer (lines 716 and 717).
\<close>

definition min_max :: "real list \<Rightarrow> real list" where
  "min_max xs =
     (if Max (set xs) \<noteq> Min (set xs)
      then map (\<lambda>x. (x - Min (set xs)) / (Max (set xs) - Min (set xs))) xs
      else xs)"

definition traditional_score :: "real list \<Rightarrow> real list" where
  "traditional_score odds = min_max (map (\<lambda>x. 1 / (x + 0.1)) odds)"

definition normalize_ml :: "real list \<Rightarrow> real list" where
  "normalize_ml ml_predictions =
     (if length ml_predictions > 0 then min_max ml_predictions else ml_predictions)"

text \<open>
  The body of the \<^verbatim>\<open>try\<close> of \<^verbatim>\<open>main\<close> (lines 707 to 720) on a prepared table of \<open>n\<close>
  rows; \<open>X_ml\<close> is the outcome of \<^verbatim>\<open>prepare_advanced_features\<close>. Assigning a column of
  another length than the table raises \<^verbatim>\<open>ValueError\<close>. \<open>Inr\<close> carries the columns
  \<^verbatim>\<open>ml_score\<close> and \<^verbatim>\<open>confidence\<close>.
\<close>

definition ml_stage ::
  "nat \<Rightarrow> (py_error + feature_table) \<Rightarrow> (nat \<Rightarrow> real)
     \<Rightarrow> (feature_table \<Rightarrow> pyfloat list \<Rightarrow> py_error + real list \<times> (string \<rightharpoonup> model_score))
     \<Rightarrow> py_error + real list \<times> pyfloat list"
where
  "ml_stage n X_ml noise fit =
     (case X_ml of
        Inl e \<Rightarrow> Inl e
      | Inr X \<Rightarrow>
          (case train_and_predict noise fit X of
             Inl e \<Rightarrow> Inl e
           | Inr (ml_predictions, ml_results, confidence_scores) \<Rightarrow>
               (if length ml_predictions \<noteq> n \<or> length confidence_scores \<noteq> n
                then Inl ValueError
                else Inr (normalize_ml ml_predictions, confidence_scores))))"

text \<open>
  Lines 703 to 754: the columns \<^verbatim>\<open>score_final\<close> and \<^verbatim>\<open>confidence\<close>. \<open>ml\<close> is the outcome
  of the \<^verbatim>\<open>try\<close>, looked at only when \<open>use_ml\<close> is set; an exception there clears
  \<open>use_ml\<close>.
\<close>

definition score_final :: "bool \<Rightarrow> real \<Rightarrow> real list \<Rightarrow> (py_error + real list \<times> pyfloat list) \<Rightarrow> real list" where
  "score_final use_ml ml_confidence odds ml =
     (case (if use_ml then ml else Inl ValueError) of
        Inr (ml_score, confidence_scores) \<Rightarrow>
          map (\<lambda>(t, m). (1 - ml_confidence) * t + ml_confidence * m)
            (zip (traditional_score odds) ml_score)
      | Inl e \<Rightarrow> traditional_score odds)"

definition confidence_column :: "bool \<Rightarrow> nat \<Rightarrow> (py_error + real list \<times> pyfloat list) \<Rightarrow> pyfloat list" where
  "confidence_column use_ml n ml =
     (case (if use_ml then ml else Inl ValueError) of
        Inr (ml_score, confidence_scores) \<Rightarrow> confidence_scores
      | Inl e \<Rightarrow> replicate n (Num 0.5))"

text \<open>
  Lines 757 and 758: the table is sorted by
  \<^verbatim>\<open>sort_values('score_final', ascending=False)\<close> and its rows are numbered from 1.
  The order that the sort of pandas (its default \<^verbatim>\<open>kind='quicksort'\<close>) gives to rows of
  equal score is decided by the sorting routine of the library and not by the source;
  the embedding does not model it. The numbering is that of the sorted table, whatever
  its order is.
\<close>

definition assign_rang :: "'a list \<Rightarrow> ('a \<times> nat) list" where
  "assign_rang df_ranked = zip df_ranked [1..<length df_ranked + 1]"

section \<open>Sample inputs\<close>

text \<open>
  A small raw table and two converters that agree with \<^verbatim>\<open>float\<close> and \<^verbatim>\<open>int\<close> on the
  texts of that table, for the examples below.
\<close>

definition sample_float :: "string \<Rightarrow> py_error + pyfloat" where
  "sample_float s = (if s = ''3.5'' then Inr (Num 3.5) else if s = ''0'' then Inr (Num 0)
                     else Inl ValueError)"

definition sample_int :: "string \<Rightarrow> py_error + int" where
  "sample_int s = (if s = ''4'' then Inr 4 else Inl ValueError)"

definition row_a :: raw_row where
  "row_a c = (case c of Cote \<Rightarrow> Some '' 3,5'' | Numero_de_corde \<Rightarrow> Some ''4''
              | Poids \<Rightarrow> Some ''58,5 kg'' | _ \<Rightarrow> Some ''A'')"

definition row_b :: raw_row where
  "row_b c = (case c of Cote \<Rightarrow> Some ''abc'' | Numero_de_corde \<Rightarrow> None
              | Poids \<Rightarrow> Some ''kg'' | _ \<Rightarrow> Some ''B'')"

definition row_c :: raw_row where
  "row_c c = (case c of Cote \<Rightarrow> Some ''0'' | Numero_de_corde \<Rightarrow> Some ''4''
              | Poids \<Rightarrow> None | _ \<Rightarrow> Some ''C'')"

definition sample_raw :: raw_table where
  "sample_raw = \<lparr>raw_columns = [Nom, Numero_de_corde, Cote, Poids], raw_rows = [row_a, row_b, row_c]\<rparr>"

text \<open>
  A feature table of four rows, and a stand-in for the fitting step that returns five
  predictions whose population deviation is 1.
\<close>

definition required_row :: "string \<Rightarrow> pyfloat" where
  "required_row c = Num 1"

definition sample_X4 :: feature_table where
  "sample_X4 = \<lparr>columns = [''odds_inv'', ''music_win_rate'', ''music_recent_form'',
                            ''weight_advantage'', ''optimal_draw''],
                 rows = [required_row, required_row, required_row, required_row]\<rparr>"

definition sample_fit ::
  "feature_table \<Rightarrow> pyfloat list \<Rightarrow> py_error + real list \<times> (string \<rightharpoonup> model_score)" where
  "sample_fit X y = Inr ([7 / 2, 1 / 2, 5 / 2, 3 / 2, 2], Map.empty)"

text \<open>
  A feature table of five rows as it is before imputation: the first row misses its
  cell for \<^verbatim>\<open>optimal_draw\<close>.
\<close>

definition nan_row :: "string \<Rightarrow> pyfloat" where
  "nan_row c = (if c = ''optimal_draw'' then NaN else Num 1)"

definition sample_features :: feature_table where
  "sample_features = \<lparr>columns = [''odds_inv'', ''music_win_rate'', ''music_recent_form'',
                            ''weight_advantage'', ''optimal_draw''],
                 rows = [nan_row, required_row, required_row, required_row, required_row]\<rparr>"

text \<open>The odds of a prepared table of five entries.\<close>

definition sample_odds :: "real list" where
  "sample_odds = [9 / 10, 19 / 10, 39 / 10, 49 / 10, 99 / 10]"

text \<open>
  A race of five entries whose draw numbers are all 0 (odds and draw number of each
  entry), and its table before imputation when every other cell is 1: the cells of
  \<^verbatim>\<open>draw_normalized\<close> and \<^verbatim>\<open>odds_draw_interaction\<close> are missing in every row.
\<close>

definition zero_draw_race :: "(real \<times> int) list" where
  "zero_draw_race = [(9 / 10, 0), (19 / 10, 0), (39 / 10, 0), (49 / 10, 0), (99 / 10, 0)]"

definition zero_draw_features :: feature_table where
  "zero_draw_features =
     \<lparr>columns = feature_names,
      rows = [feature_row (\<lambda>c. Num 1) (9 / 10) 0 0, feature_row (\<lambda>c. Num 1) (19 / 10) 0 0,
              feature_row (\<lambda>c. Num 1) (39 / 10) 0 0, feature_row (\<lambda>c. Num 1) (49 / 10) 0 0,
              feature_row (\<lambda>c. Num 1) (99 / 10) 0 0]\<rparr>"

section \<open>Helper lemmas\<close>

lemma np_var_nonneg: "0 \<le> np_var xs"
  unfolding np_var_def np_mean_def
  by (intro divide_nonneg_nonneg sum_list_nonneg) auto

lemma np_std_nonneg: "0 \<le> np_std xs"
  by (simp add: np_std_def np_var_nonneg)

lemma np_std_single: "np_std [x] = 0"
  by (simp add: np_std_def np_var_def np_mean_def)

subsection \<open>Form Parser\<close>

lemma superscript_not_decimal: "superscript_digit c \<Longrightarrow> \<not> is_decimal c"
  by (auto simp: superscript_digit_def is_decimal_def)

lemma positions_Cons_super:
  "superscript_digit c \<Longrightarrow> positions_of (c # cs) = Inl ValueError"
  using superscript_not_decimal[of c]
  by (simp add: isdigit_def int_of_chr_def superscript_digit_def)

lemma positions_Cons_digit:
  "nonzero_digit c \<Longrightarrow> positions_of (c # cs) =
     (case positions_of cs of Inl e \<Rightarrow> Inl e | Inr ps \<Rightarrow> Inr ((of_char c - 48) # ps))"
  by (simp add: isdigit_def int_of_chr_def is_decimal_def nonzero_digit_def)

lemma positions_Cons_other:
  "\<not> nonzero_digit c \<Longrightarrow> \<not> superscript_digit c \<Longrightarrow> positions_of (c # cs) = positions_of cs"
  by (simp add: isdigit_def int_of_chr_def is_decimal_def nonzero_digit_def superscript_digit_def)

lemma super_not_nonzero: "superscript_digit c \<Longrightarrow> \<not> nonzero_digit c"
  by (auto simp: superscript_digit_def nonzero_digit_def)

lemma char_cases:
  obtains "superscript_digit c" "\<not> nonzero_digit c"
  | "nonzero_digit c" "\<not> superscript_digit c"
  | "\<not> nonzero_digit c" "\<not> superscript_digit c"
  using super_not_nonzero by blast

lemma positions_map:
  "positions_of s = Inr ps \<Longrightarrow> ps = map (\<lambda>c. of_char c - 48) (filter nonzero_digit s)"
proof (induction s arbitrary: ps)
  case Nil
  then show ?case by simp
next
  case (Cons c cs)
  show ?case
  proof (cases c rule: char_cases)
    case 1
    with Cons.prems show ?thesis by (simp add: positions_Cons_super del: positions_of.simps)
  next
    case 2
    with Cons.prems Cons.IH show ?thesis
      by (auto simp add: positions_Cons_digit simp del: positions_of.simps split: sum.splits)
  next
    case 3
    with Cons.prems Cons.IH show ?thesis
      by (simp add: positions_Cons_other del: positions_of.simps)
  qed
qed

lemma positions_fail:
  "(\<exists>e. positions_of s = Inl e) = (\<exists>c\<in>set s. superscript_digit c)"
proof (induction s)
  case Nil
  then show ?case by simp
next
  case (Cons c cs)
  show ?case
  proof (cases c rule: char_cases)
    case 1
    then show ?thesis by (simp add: positions_Cons_super del: positions_of.simps)
  next
    case 2
    with Cons.IH show ?thesis
      by (auto simp add: positions_Cons_digit simp del: positions_of.simps split: sum.splits)
  next
    case 3
    with Cons.IH show ?thesis
      by (simp add: positions_Cons_other del: positions_of.simps)
  qed
qed

lemma zero_not_nonzero: "\<not> nonzero_digit (CHR ''0'')" "\<not> superscript_digit (CHR ''0'')"
  by (simp_all add: nonzero_digit_def superscript_digit_def)

lemma positions_drop0: "positions_of (filter (\<lambda>c. c \<noteq> CHR ''0'') s) = positions_of s"
proof (induction s)
  case Nil
  then show ?case by simp
next
  case (Cons c cs)
  show ?case
  proof (cases "c = CHR ''0''")
    case True
    with Cons.IH show ?thesis
      using positions_Cons_other[OF zero_not_nonzero, of cs] by (simp del: positions_of.simps)
  next
    case False
    show ?thesis
    proof (cases c rule: char_cases)
      case 1
      then show ?thesis using False by (simp add: positions_Cons_super del: positions_of.simps)
    next
      case 2
      with Cons.IH False show ?thesis
        by (simp add: positions_Cons_digit del: positions_of.simps)
    next
      case 3
      with Cons.IH False show ?thesis
        by (simp add: positions_Cons_other del: positions_of.simps)
    qed
  qed
qed

lemma nonzero_digit_range: "nonzero_digit c \<Longrightarrow> 1 \<le> (of_char c :: nat) - 48 \<and> (of_char c :: nat) - 48 \<le> 9"
  by (auto simp: nonzero_digit_def)

lemma positions_append:
  "positions_of (s @ t) =
     (case positions_of s of Inl e \<Rightarrow> Inl e
      | Inr a \<Rightarrow> (case positions_of t of Inl e \<Rightarrow> Inl e | Inr b \<Rightarrow> Inr (a @ b)))"
  by (induction s) (auto split: sum.splits)

subsection \<open>Data preparation\<close>

lemma safe_convert_None: "safe_convert None f d = d"
  by (simp add: safe_convert_def)

lemma safe_convert_raises: "f (strip (replace_comma s)) = Inl err \<Longrightarrow> safe_convert (Some s) f d = d"
  by (simp add: safe_convert_def)

lemma re_search_no_digit: "\<forall>c\<in>set s. \<not> is_decimal c \<Longrightarrow> re_search_number s = None"
  by (simp add: re_search_number_def Let_def)

lemma extract_weight_default:
  "w = None \<or> (\<exists>s. w = Some s \<and> (\<forall>c\<in>set s. \<not> is_decimal c)) \<Longrightarrow> extract_weight w = 60"
  by (auto simp add: extract_weight_def re_search_no_digit)

lemma pf_gt_Num: "pf_gt v y \<Longrightarrow> \<exists>x. v = Num x \<and> y < x"
  by (cases v) auto

lemma conv_a: "convert_row sample_float sample_int row_a
   = \<lparr>source_row = row_a, odds_numeric = Num 3.5, draw_numeric = 4, weight_kg = 58.5\<rparr>"
  by (simp add: convert_row_def row_a_def safe_convert_def strip_def replace_comma_def isspace_def
      sample_float_def sample_int_def extract_weight_def re_search_number_def is_decimal_def
      decimal_value_def digits_value_def Let_def)

lemma conv_b: "convert_row sample_float sample_int row_b
   = \<lparr>source_row = row_b, odds_numeric = Num 999, draw_numeric = 1, weight_kg = 60\<rparr>"
  by (simp add: convert_row_def row_b_def safe_convert_def strip_def replace_comma_def isspace_def
      sample_float_def sample_int_def extract_weight_def re_search_number_def is_decimal_def
      decimal_value_def digits_value_def Let_def)

lemma conv_c: "convert_row sample_float sample_int row_c
   = \<lparr>source_row = row_c, odds_numeric = Num 0, draw_numeric = 4, weight_kg = 60\<rparr>"
  by (simp add: convert_row_def row_c_def safe_convert_def strip_def replace_comma_def isspace_def
      sample_float_def sample_int_def extract_weight_def re_search_number_def is_decimal_def
      decimal_value_def digits_value_def Let_def)

lemma prep_sample: "prepare_data sample_float sample_int sample_raw
   = Inr [\<lparr>source_row = row_a, odds_numeric = Num 3.5, draw_numeric = 4, weight_kg = 58.5\<rparr>,
          \<lparr>source_row = row_b, odds_numeric = Num 999, draw_numeric = 1, weight_kg = 60\<rparr>]"
  by (simp add: prepare_data_def sample_raw_def conv_a conv_b conv_c)


subsection \<open>Auto-detection\<close>

lemma sqrt9: "sqrt 9 = 3"
proof -
  have "sqrt 9 = sqrt (3 ^ 2)" by simp
  also have "\<dots> = 3" by (simp only: real_sqrt_abs abs_numeral)
  finally show ?thesis .
qed

lemma pd_std_57_60_63: "pd_std [57, 60, 63] = Num 3"
  by (simp add: pd_std_def sqrt9)

lemma pd_66_67_68: "pd_std [66, 67, 68] = Num 1" "pd_mean [66, 67, 68] = Num 67"
  by (simp_all add: pd_std_def pd_mean_def)

lemma pd_59_60_61: "pd_std [59, 60, 61] = Num 1" "pd_mean [59, 60, 61] = Num 60"
  by (simp_all add: pd_std_def pd_mean_def)

subsection \<open>Ensemble Trainer and confidence\<close>

lemma np_clip_unit: "0 \<le> x \<Longrightarrow> x \<le> 1 \<Longrightarrow> np_clip x 0 1 = x"
  by (simp add: np_clip_def)

lemma np_clip_range: "0 \<le> np_clip x 0 1 \<and> np_clip x 0 1 \<le> 1"
  by (simp add: np_clip_def)

lemma confidence_base_range: "0 < 1 / (1 + np_std p) \<and> 1 / (1 + np_std p) \<le> 1"
  using np_std_nonneg [of p] by (simp add: field_simps)

lemma y_synthetic_columns: "y_synthetic X noise = Inr y \<Longrightarrow> columns X \<noteq> []"
  by (auto simp add: y_synthetic_def split: if_splits)

lemma train_and_predict_above:
  assumes "train_and_predict noise fit X = Inr (p, cv, conf)" and "5 \<le> length (rows X)"
  shows "conf = calculate_prediction_confidence p X \<and> columns X \<noteq> []"
  using assms
  by (auto simp add: train_and_predict_def y_synthetic_columns split: sum.splits prod.splits)

lemma columns_fillna0: "columns (fillna0 F) = columns F"
  by (simp add: fillna0_def)

lemma length_rows_fillna0: "length (rows (fillna0 F)) = length (rows F)"
  by (simp add: fillna0_def)

lemma isna_count_fillna0: "r \<in> set (rows (fillna0 F)) \<Longrightarrow> isna_count (fillna0 F) r = 0"
  by (auto simp add: fillna0_def isna_count_def filter_empty_conv split: pyfloat.splits)

lemma confidence_formula:
  assumes "3 \<le> length p" and "columns X \<noteq> []"
  shows "calculate_prediction_confidence p X
         = map (\<lambda>r. Num (np_clip (1 / (1 + np_std p)
                  * (1 - real (isna_count X r) / real (length (columns X)))) 0 1)) (rows X)"
  using assms by (simp add: calculate_prediction_confidence_def Let_def)

lemma confidence_fillna0:
  assumes "3 \<le> length p" and "columns F \<noteq> []"
  shows "calculate_prediction_confidence p (fillna0 F)
         = replicate (length (rows F)) (Num (1 / (1 + np_std p)))"
proof -
  have "calculate_prediction_confidence p (fillna0 F)
        = map (\<lambda>r. Num (1 / (1 + np_std p))) (rows (fillna0 F))"
    unfolding confidence_formula [OF assms(1), of "fillna0 F", unfolded columns_fillna0, OF assms(2)]
    using confidence_base_range [of p]
    by (intro map_cong refl) (simp add: isna_count_fillna0 np_clip_unit)
  then show ?thesis by (simp add: map_replicate_const length_rows_fillna0)
qed

lemma confidence_range:
  assumes "columns X \<noteq> []" and "c \<in> set (calculate_prediction_confidence p X)"
  shows "\<exists>x. c = Num x \<and> 0 \<le> x \<and> x \<le> 1"
proof (cases "length p < 3")
  case True
  with assms(2) have "c = Num (1 / 2)"
    by (auto simp add: calculate_prediction_confidence_def)
  moreover have "(0::real) \<le> 1 / 2 \<and> (1::real) / 2 \<le> 1" by simp
  ultimately show ?thesis by blast
next
  case False
  with assms obtain y where "c = Num (np_clip y 0 1)"
    by (auto simp add: calculate_prediction_confidence_def Let_def)
  with np_clip_range [of y] show ?thesis by blast
qed

lemma train_and_predict_range:
  assumes "train_and_predict noise fit X = Inr (p, cv, conf)" and "c \<in> set conf"
  shows "\<exists>x. c = Num x \<and> 0 \<le> x \<and> x \<le> 1"
proof (cases "length (rows X) < 5")
  case True
  with assms show ?thesis by (auto simp add: train_and_predict_def)
next
  case False
  with train_and_predict_above [OF assms(1)] assms(2) confidence_range show ?thesis
    by auto
qed

lemma np_std_sample: "np_std [7 / 2, 1 / 2, 5 / 2, 3 / 2, 2] = 1"
  by (simp add: np_std_def np_var_def np_mean_def power2_eq_square)

lemma y_synthetic_sample: "\<exists>y. y_synthetic (fillna0 sample_features) noise = Inr y"
  by (simp add: y_synthetic_def columns_fillna0 sample_features_def)

lemma train_sample:
  "train_and_predict noise sample_fit (fillna0 sample_features)
   = Inr ([7 / 2, 1 / 2, 5 / 2, 3 / 2, 2], Map.empty,
          [Num (1 / 2), Num (1 / 2), Num (1 / 2), Num (1 / 2), Num (1 / 2)])"
proof -
  obtain y where y: "y_synthetic (fillna0 sample_features) noise = Inr y"
    using y_synthetic_sample by blast
  have c: "columns sample_features \<noteq> []" by (simp add: sample_features_def)
  have l: "length (rows sample_features) = 5" by (simp add: sample_features_def)
  have "calculate_prediction_confidence [7 / 2, 1 / 2, 5 / 2, 3 / 2, 2] (fillna0 sample_features)
        = replicate 5 (Num (1 / 2))"
    using confidence_fillna0 [of "[7 / 2, 1 / 2, 5 / 2, 3 / 2, 2]" sample_features] c l
    by (simp add: np_std_sample)
  then show ?thesis
    by (simp add: train_and_predict_def y sample_fit_def length_rows_fillna0 l numeral_eq_Suc)
qed

lemma length_normalize_ml: "length (normalize_ml p) = length p"
  by (simp add: normalize_ml_def min_max_def)


lemma ml_stage_sample:
  "ml_stage 5 (Inr (fillna0 sample_features)) noise sample_fit
   = Inr (normalize_ml [7 / 2, 1 / 2, 5 / 2, 3 / 2, 2],
          [Num (1 / 2), Num (1 / 2), Num (1 / 2), Num (1 / 2), Num (1 / 2)])"
  by (simp add: ml_stage_def train_sample)

lemma ml_stage_sample4:
  "ml_stage 4 (Inr sample_X4) noise fit
   = Inr ([0, 0, 0, 0], [Num 0, Num 0, Num 0, Num 0])"
  by (simp add: ml_stage_def train_and_predict_def sample_X4_def normalize_ml_def min_max_def
      numeral_eq_Suc)

subsection \<open>Ranking and blend\<close>

lemma length_min_max: "length (min_max xs) = length xs"
  by (simp add: min_max_def)

lemma length_traditional_score: "length (traditional_score odds) = length odds"
  by (simp add: traditional_score_def length_min_max)

lemma ml_stage_Inr:
  assumes "ml_stage n X_ml noise fit = Inr (s, cs)"
  shows "length s = n \<and> length cs = n"
  using assms
  by (auto simp add: ml_stage_def length_normalize_ml split: sum.splits prod.splits if_splits)

lemma traditional_sample: "traditional_score sample_odds = [1, 4 / 9, 1 / 6, 1 / 9, 0]"
  by (simp add: traditional_score_def sample_odds_def min_max_def)

lemma normalize_sample: "normalize_ml [7 / 2, 1 / 2, 5 / 2, 3 / 2, 2] = [1, 0, 2 / 3, 1 / 3, 1 / 2]"
  by (simp add: normalize_ml_def min_max_def)

lemma map_fst_zip_same: "length xs = length ys \<Longrightarrow> map (\<lambda>(t, m). t) (zip xs ys) = xs"
  by (induction xs ys rule: list_induct2) auto

lemma map_snd_zip_same: "length xs = length ys \<Longrightarrow> map (\<lambda>(t, m). m) (zip xs ys) = ys"
  by (induction xs ys rule: list_induct2) auto

subsection \<open>Ranking\<close>

lemma sum_list_ranks: "2 * sum_list [1..<n + 1] = n * (n + 1)"
  by (induction n) simp_all

lemma ranks_of_assign: "map snd (assign_rang xs) = [1..<length xs + 1]"
  by (simp add: assign_rang_def)

lemma rows_of_assign: "map fst (assign_rang xs) = xs"
proof -
  have "length xs = length [1..<length xs + 1]" by (simp del: upt_Suc)
  then show ?thesis unfolding assign_rang_def by (rule map_fst_zip)
qed

subsection \<open>The feature table of a race with draw numbers 0\<close>

lemma length_feature_names: "length feature_names = 40"
  by (simp add: feature_names_def)

lemma draw_columns_in_names:
  "''draw_normalized'' \<in> set feature_names" "''odds_draw_interaction'' \<in> set feature_names"
  by (simp_all add: feature_names_def)

lemma required_in_names:
  "set [''odds_inv'', ''music_win_rate'', ''music_recent_form'', ''weight_advantage'',
        ''optimal_draw''] \<subseteq> set feature_names"
  by (simp add: feature_names_def)

lemma feature_row_zero_max:
  "feature_row others odds d 0 ''draw_normalized'' = NaN"
  "feature_row others odds d 0 ''odds_draw_interaction'' = NaN"
  by (simp_all add: feature_row_def draw_normalized_def)

lemma features_zero_draw:
  "features_before_fillna others zero_draw_race
   = Some \<lparr>columns = feature_names,
           rows = [feature_row (others 0) (9 / 10) 0 0, feature_row (others 1) (19 / 10) 0 0,
                   feature_row (others 2) (39 / 10) 0 0, feature_row (others 3) (49 / 10) 0 0,
                   feature_row (others 4) (99 / 10) 0 0]\<rparr>"
  by (simp add: features_before_fillna_def zero_draw_race_def enumerate_eq_zip upt_rec
      eval_nat_numeral)

lemma two_in_filter:
  assumes "a \<in> set xs" and "b \<in> set xs" and "a \<noteq> b" and "P a" and "P b"
  shows "2 \<le> length (filter P xs)"
proof -
  from assms have "{a, b} \<subseteq> set (filter P xs)" by simp
  then have "card {a, b} \<le> card (set (filter P xs))" by (intro card_mono) simp_all
  also have "\<dots> \<le> length (filter P xs)" by (rule card_length)
  finally show ?thesis using assms(3) by simp
qed

lemma isna_count_zero_draw:
  assumes "columns F = feature_names"
    and "r ''draw_normalized'' = NaN" and "r ''odds_draw_interaction'' = NaN"
  shows "2 \<le> isna_count F r \<and> isna_count F r \<le> 40"
proof -
  have "2 \<le> length (filter (\<lambda>c. r c = NaN) feature_names)"
    by (rule two_in_filter [of "''draw_normalized''" _ "''odds_draw_interaction''"])
       (simp_all add: draw_columns_in_names assms)
  moreover have "length (filter (\<lambda>c. r c = NaN) feature_names) \<le> 40"
    using length_filter_le [of "\<lambda>c. r c = NaN" feature_names]
    by (simp add: length_feature_names)
  ultimately show ?thesis by (simp add: isna_count_def assms(1))
qed

lemma clipped_share:
  assumes "0 < b" and "b \<le> 1" and "2 \<le> k" and "k \<le> (40::nat)"
  shows "np_clip (b * (1 - real k / 40)) 0 1 \<le> 19 / 20 * b
         \<and> np_clip (b * (1 - real k / 40)) 0 1 < b"
proof -
  have k: "2 \<le> real k" "real k \<le> 40" using assms(3,4) by simp_all
  then have s: "0 \<le> 1 - real k / 40" "1 - real k / 40 \<le> 19 / 20" by simp_all
  have lo: "0 \<le> b * (1 - real k / 40)" using assms(1) s(1) by simp
  have up: "b * (1 - real k / 40) \<le> b * (19 / 20)"
    using assms(1) s(2) by (intro mult_left_mono) simp_all
  have "b * (19 / 20) \<le> 1" using assms(1,2) by simp
  with up have le1: "b * (1 - real k / 40) \<le> 1" by linarith
  have "np_clip (b * (1 - real k / 40)) 0 1 = b * (1 - real k / 40)"
    using lo le1 by (rule np_clip_unit)
  with up assms(1) show ?thesis by simp
qed

lemma confidence_eq_spec:
  assumes "3 \<le> length p" and "columns F \<noteq> []"
  shows "calculate_prediction_confidence p F = spec_confidence p F"
  using assms by (simp add: confidence_formula spec_confidence_def)

lemma isna_count_zero_draw_features:
  "isna_count zero_draw_features (feature_row (\<lambda>c. Num 1) x 0 0) = 2"
  by (simp add: isna_count_def zero_draw_features_def feature_names_def feature_row_def
      draw_normalized_def)

lemma spec_confidence_zero_draw:
  "spec_confidence [7 / 2, 1 / 2, 5 / 2, 3 / 2, 2] zero_draw_features
   = [Num (19 / 40), Num (19 / 40), Num (19 / 40), Num (19 / 40), Num (19 / 40)]"
proof -
  have r: "rows zero_draw_features
     = [feature_row (\<lambda>c. Num 1) (9 / 10) 0 0, feature_row (\<lambda>c. Num 1) (19 / 10) 0 0,
              feature_row (\<lambda>c. Num 1) (39 / 10) 0 0, feature_row (\<lambda>c. Num 1) (49 / 10) 0 0,
              feature_row (\<lambda>c. Num 1) (99 / 10) 0 0]"
    and c: "length (columns zero_draw_features) = 40"
    by (simp_all add: zero_draw_features_def length_feature_names)
  show ?thesis
    unfolding spec_confidence_def r
    by (simp add: isna_count_zero_draw_features c np_std_sample np_clip_def)
qed

lemma train_zero_draw:
  "train_and_predict noise sample_fit (fillna0 zero_draw_features)
   = Inr ([7 / 2, 1 / 2, 5 / 2, 3 / 2, 2], Map.empty,
          [Num (1 / 2), Num (1 / 2), Num (1 / 2), Num (1 / 2), Num (1 / 2)])"
proof -
  have cols: "columns zero_draw_features = feature_names"
    and l: "length (rows zero_draw_features) = 5"
    by (simp_all add: zero_draw_features_def)
  have "y_synthetic (fillna0 zero_draw_features) noise \<noteq> Inl KeyError"
    using required_in_names by (simp add: y_synthetic_def columns_fillna0 cols)
  then obtain y where y: "y_synthetic (fillna0 zero_draw_features) noise = Inr y"
    by (cases "y_synthetic (fillna0 zero_draw_features) noise")
       (auto simp add: y_synthetic_def split: if_splits)
  have c: "columns zero_draw_features \<noteq> []" by (simp add: cols feature_names_def)
  have "calculate_prediction_confidence [7 / 2, 1 / 2, 5 / 2, 3 / 2, 2] (fillna0 zero_draw_features)
        = replicate 5 (Num (1 / 2))"
    using confidence_fillna0 [of "[7 / 2, 1 / 2, 5 / 2, 3 / 2, 2]" zero_draw_features] c l
    by (simp add: np_std_sample)
  then show ?thesis
    by (simp add: train_and_predict_def y sample_fit_def length_rows_fillna0 l numeral_eq_Suc)
qed

section \<open>Claims about the Form Parser\<close>

text \<open>
  Claim C1, as the specification states it: a form code with exactly one non-zero
  digit has consistency 1, and every form code with a non-zero digit has consistency
  one over the population deviation of its positions plus one. The source guards the
  formula with \<^verbatim>\<open>len(positions) > 1\<close> and returns 0 otherwise: on the form code
  \<^verbatim>\<open>"1"\<close> the parser returns consistency 0, where the formula gives 1.
\<close>

theorem form_consistency_counterexample:
  "map_sum id consistency (extract_music_features (Some ''1'')) = Inr 0
   \<and> spec_consistency [1] = 1
   \<and> map_sum id consistency (extract_music_features (Some ''1'')) \<noteq> Inr (spec_consistency [1])"
  by (simp add: extract_music_features_def summary_of_def isdigit_def is_decimal_def
      int_of_chr_def spec_consistency_def np_std_single)

text \<open>
  Claim C1, amended: for every form code that yields at least two positions the
  consistency is one over the population deviation of the positions plus one; for a
  form code that yields exactly one position the consistency is 0.
\<close>

theorem form_consistency:
  assumes "positions_of s = Inr ps" and "ps \<noteq> []"
  shows "map_sum id consistency (extract_music_features (Some s))
         = Inr (if length ps > 1 then 1 / (np_std (map real ps) + 1) else 0)"
proof -
  from assms have "s \<noteq> []" by auto
  with assms show ?thesis
    by (simp add: extract_music_features_def summary_of_def Let_def)
qed

theorem form_consistency_witness:
  "positions_of ''13'' = Inr [1, 3] \<and> [1, 3 :: nat] \<noteq> []
   \<and> map_sum id consistency (extract_music_features (Some ''13'')) = Inr (1 / 2)"
proof -
  have p: "positions_of ''13'' = Inr [1, 3]"
    by (simp add: isdigit_def is_decimal_def int_of_chr_def)
  have ne: "[1, 3 :: nat] \<noteq> []" by simp
  have sd: "np_std (map real [1, 3]) = 1"
    by (simp add: np_std_def np_var_def np_mean_def)
  from form_consistency [OF p ne] sd p show ?thesis by simp
qed

text \<open>
  Claim C9: the parser reads the form code one character at a time. The positions of
  a concatenation are the positions of its parts, one after the other; when the parser
  returns, its positions are the values of the characters \<^verbatim>\<open>1\<close> to \<^verbatim>\<open>9\<close> of the code, in
  order, so each lies between 1 and 9; removing the characters \<^verbatim>\<open>0\<close> changes nothing;
  and the code \<^verbatim>\<open>"10"\<close> yields the single position 1, counted as one win in one race.
\<close>

theorem form_positions_per_character:
  "positions_of (s @ t) =
     (case positions_of s of Inl e \<Rightarrow> Inl e
      | Inr a \<Rightarrow> (case positions_of t of Inl e \<Rightarrow> Inl e | Inr b \<Rightarrow> Inr (a @ b)))
   \<and> (positions_of s = Inr ps \<longrightarrow>
        ps = map (\<lambda>c. of_char c - 48) (filter nonzero_digit s)
        \<and> (\<forall>p\<in>set ps. 1 \<le> p \<and> p \<le> 9))
   \<and> positions_of (filter (\<lambda>c. c \<noteq> CHR ''0'') s) = positions_of s
   \<and> positions_of ''10'' = Inr [1]
   \<and> map_sum id wins (extract_music_features (Some ''10'')) = Inr 1
   \<and> map_sum id total_races (extract_music_features (Some ''10'')) = Inr 1"
proof -
  have a: "positions_of (s @ t) =
     (case positions_of s of Inl e \<Rightarrow> Inl e
      | Inr a \<Rightarrow> (case positions_of t of Inl e \<Rightarrow> Inl e | Inr b \<Rightarrow> Inr (a @ b)))"
    by (rule positions_append)
  have b: "positions_of s = Inr ps \<longrightarrow>
        ps = map (\<lambda>c. of_char c - 48) (filter nonzero_digit s)
        \<and> (\<forall>p\<in>set ps. 1 \<le> p \<and> p \<le> 9)"
  proof
    assume h: "positions_of s = Inr ps"
    have m: "ps = map (\<lambda>c. of_char c - 48) (filter nonzero_digit s)"
      by (rule positions_map [OF h])
    have "\<forall>p\<in>set (map (\<lambda>c. (of_char c :: nat) - 48) (filter nonzero_digit s)). 1 \<le> p \<and> p \<le> 9"
      using nonzero_digit_range by auto
    with m show "ps = map (\<lambda>c. of_char c - 48) (filter nonzero_digit s)
        \<and> (\<forall>p\<in>set ps. 1 \<le> p \<and> p \<le> 9)" by simp
  qed
  have c: "positions_of (filter (\<lambda>c. c \<noteq> CHR ''0'') s) = positions_of s"
    by (rule positions_drop0)
  have d: "positions_of ''10'' = Inr [1]"
    by (simp add: isdigit_def is_decimal_def int_of_chr_def)
  have e: "map_sum id wins (extract_music_features (Some ''10'')) = Inr 1"
    by (simp add: extract_music_features_def d summary_of_def del: positions_of.simps)
  have f: "map_sum id total_races (extract_music_features (Some ''10'')) = Inr 1"
    by (simp add: extract_music_features_def d summary_of_def del: positions_of.simps)
  from a b c d e f show ?thesis by blast
qed

theorem form_positions_per_character_witness:
  "positions_of ''1a03'' = Inr [1, 3]
   \<and> [1, 3 :: nat] = map (\<lambda>c. of_char c - 48) (filter nonzero_digit ''1a03'')
   \<and> set [1, 3 :: nat] \<subseteq> {1..9}"
proof -
  have p: "positions_of ''1a03'' = Inr [1, 3]"
    by (simp add: isdigit_def is_decimal_def int_of_chr_def)
  from form_positions_per_character [of "''1a03''" "[]" "[1, 3]"] p
  have m: "[1, 3 :: nat] = map (\<lambda>c. of_char c - 48) (filter nonzero_digit ''1a03'')"
    and b: "\<forall>p\<in>set [1, 3 :: nat]. 1 \<le> p \<and> p \<le> 9"
    by blast+
  from b have "set [1, 3 :: nat] \<subseteq> {1..9}" by auto
  with p m show ?thesis by blast
qed

section \<open>Claims about data preparation\<close>

text \<open>
  Claim C7: when \<^verbatim>\<open>prepare_data\<close> returns, every retained entry comes from a row of the
  raw table and has odds that are a number strictly greater than 0 (so never NaN);
  missing or unparseable odds are the sentinel 999, a missing or unparseable draw
  number is 1, and a missing weight or one without a digit is 60. Draw numbers and
  weights are an integer and a real in the prepared row, which have no null value.
\<close>

theorem prepare_data_invariant:
  assumes "prepare_data py_float py_int df = Inr out" and "e \<in> set out"
  shows "(\<exists>x. odds_numeric e = Num x \<and> 0 < x)
    \<and> (\<exists>r\<in>set (raw_rows df). e = convert_row py_float py_int r)
    \<and> (source_row e Cote = None
         \<or> (\<exists>s err. source_row e Cote = Some s \<and> py_float (strip (replace_comma s)) = Inl err)
        \<longrightarrow> odds_numeric e = Num 999)
    \<and> (source_row e Numero_de_corde = None
         \<or> (\<exists>s err. source_row e Numero_de_corde = Some s
                    \<and> py_int (strip (replace_comma s)) = Inl err)
        \<longrightarrow> draw_numeric e = 1)
    \<and> (source_row e Poids = None
         \<or> (\<exists>s. source_row e Poids = Some s \<and> (\<forall>c\<in>set s. \<not> is_decimal c))
        \<longrightarrow> weight_kg e = 60)"
proof -
  from assms(1) have out: "out = filter (\<lambda>r. pf_gt (odds_numeric r) 0)
                  (map (convert_row py_float py_int) (raw_rows df))"
    by (simp add: prepare_data_def split: if_splits)
  with assms(2) have gt: "pf_gt (odds_numeric e) 0"
    and "e \<in> set (map (convert_row py_float py_int) (raw_rows df))" by auto
  then obtain r where r: "r \<in> set (raw_rows df)" "e = convert_row py_float py_int r" by auto
  have 1: "\<exists>x. odds_numeric e = Num x \<and> 0 < x" using pf_gt_Num [OF gt] .
  have 2: "\<exists>r\<in>set (raw_rows df). e = convert_row py_float py_int r" using r by blast
  have 3: "source_row e Cote = None
         \<or> (\<exists>s err. source_row e Cote = Some s \<and> py_float (strip (replace_comma s)) = Inl err)
        \<longrightarrow> odds_numeric e = Num 999"
    by (auto simp add: r(2) convert_row_def safe_convert_None safe_convert_raises)
  have 4: "source_row e Numero_de_corde = None
         \<or> (\<exists>s err. source_row e Numero_de_corde = Some s
                    \<and> py_int (strip (replace_comma s)) = Inl err)
        \<longrightarrow> draw_numeric e = 1"
    by (auto simp add: r(2) convert_row_def safe_convert_None safe_convert_raises)
  have 5: "source_row e Poids = None
         \<or> (\<exists>s. source_row e Poids = Some s \<and> (\<forall>c\<in>set s. \<not> is_decimal c))
        \<longrightarrow> weight_kg e = 60"
    using extract_weight_default [of "source_row e Poids"]
    by (simp add: r(2) convert_row_def)
  from 1 2 3 4 5 show ?thesis by blast
qed


theorem prepare_data_invariant_witness:
  "prepare_data sample_float sample_int sample_raw
     = Inr [\<lparr>source_row = row_a, odds_numeric = Num 3.5, draw_numeric = 4, weight_kg = 58.5\<rparr>,
            \<lparr>source_row = row_b, odds_numeric = Num 999, draw_numeric = 1, weight_kg = 60\<rparr>]
   \<and> row_b Cote = Some ''abc'' \<and> sample_float (strip (replace_comma ''abc'')) = Inl ValueError
   \<and> row_b Numero_de_corde = None
   \<and> row_b Poids = Some ''kg'' \<and> \<not> is_decimal (CHR ''k'') \<and> \<not> is_decimal (CHR ''g'')
   \<and> (\<exists>x. odds_numeric (convert_row sample_float sample_int row_b) = Num x \<and> 0 < x)
   \<and> odds_numeric (convert_row sample_float sample_int row_b) = Num 999
   \<and> draw_numeric (convert_row sample_float sample_int row_b) = 1
   \<and> weight_kg (convert_row sample_float sample_int row_b) = 60"
proof -
  have mem: "convert_row sample_float sample_int row_b
      \<in> set [\<lparr>source_row = row_a, odds_numeric = Num 3.5, draw_numeric = 4, weight_kg = 58.5\<rparr>,
            \<lparr>source_row = row_b, odds_numeric = Num 999, draw_numeric = 1, weight_kg = 60\<rparr>]"
    by (simp add: conv_b)
  have src: "source_row (convert_row sample_float sample_int row_b) = row_b"
    by (simp add: convert_row_def)
  have c: "row_b Cote = Some ''abc''" "row_b Numero_de_corde = None" "row_b Poids = Some ''kg''"
    by (simp_all add: row_b_def)
  have f: "sample_float (strip (replace_comma ''abc'')) = Inl ValueError"
    by (simp add: sample_float_def strip_def replace_comma_def isspace_def)
  have k: "\<forall>c\<in>set ''kg''. \<not> is_decimal c"
    by (simp add: is_decimal_def)
  from prepare_data_invariant [OF prep_sample mem] src c f k prep_sample
  show ?thesis by auto
qed

section \<open>Claims about auto-detection\<close>

text \<open>
  Claim C6: with \<open>s\<close> the deviation and \<open>m\<close> the mean of the weights (as pandas
  computes them: the sample deviation), auto-detection returns PLAT, the first profile
  of \<^verbatim>\<open>CONFIGS\<close>, when \<open>s > 2.5\<close>; otherwise ATTELE_AUTOSTART, the second profile, when
  \<open>m > 65\<close> and \<open>s < 1.5\<close>; otherwise PLAT. A deviation that is NaN (a race of one
  entry) gives PLAT. In particular a deviation of 3 gives PLAT, and a mean of 67 with a
  deviation of 1 gives ATTELE_AUTOSTART.
\<close>

theorem auto_detect_profiles:
  "(pd_std ws = Num s \<and> s > 2.5 \<longrightarrow> auto_detect_race_type ws = PLAT)
   \<and> (pd_std ws = Num s \<and> pd_mean ws = Num m \<and> \<not> s > 2.5 \<and> m > 65 \<and> s < 1.5
        \<longrightarrow> auto_detect_race_type ws = ATTELE_AUTOSTART)
   \<and> (pd_std ws = Num s \<and> pd_mean ws = Num m \<and> \<not> s > 2.5 \<and> \<not> (m > 65 \<and> s < 1.5)
        \<longrightarrow> auto_detect_race_type ws = PLAT)
   \<and> (pd_std ws = NaN \<longrightarrow> auto_detect_race_type ws = PLAT)
   \<and> (pd_std ws = Num 3 \<longrightarrow> auto_detect_race_type ws = PLAT)
   \<and> (pd_mean ws = Num 67 \<and> pd_std ws = Num 1 \<longrightarrow> auto_detect_race_type ws = ATTELE_AUTOSTART)
   \<and> map fst CONFIGS = [PLAT, ATTELE_AUTOSTART, ATTELE_VOLTE]"
  by (simp add: auto_detect_race_type_def Let_def CONFIGS_def)

theorem auto_detect_profiles_witness:
  "pd_std [57, 60, 63] = Num 3 \<and> (3 :: real) > 2.5 \<and> auto_detect_race_type [57, 60, 63] = PLAT
   \<and> pd_mean [66, 67, 68] = Num 67 \<and> pd_std [66, 67, 68] = Num 1
   \<and> \<not> (1 :: real) > 2.5 \<and> (67 :: real) > 65 \<and> (1 :: real) < 1.5
   \<and> auto_detect_race_type [66, 67, 68] = ATTELE_AUTOSTART
   \<and> pd_mean [59, 60, 61] = Num 60 \<and> pd_std [59, 60, 61] = Num 1
   \<and> \<not> ((60 :: real) > 65 \<and> (1 :: real) < 1.5)
   \<and> auto_detect_race_type [59, 60, 61] = PLAT
   \<and> pd_std [70] = NaN \<and> auto_detect_race_type [70] = PLAT"
proof -
  have n: "pd_std [70] = NaN" by (simp add: pd_std_def)
  from auto_detect_profiles [of "[57, 60, 63]" 3 0]
       auto_detect_profiles [of "[66, 67, 68]" 1 67]
       auto_detect_profiles [of "[59, 60, 61]" 1 60]
       auto_detect_profiles [of "[70]" 0 0]
       pd_std_57_60_63 pd_66_67_68 pd_59_60_61 n
  show ?thesis by auto
qed

section \<open>Claims about the Ensemble Trainer\<close>

text \<open>
  Claim C4: on a feature table of fewer than 5 rows \<^verbatim>\<open>train_and_predict\<close> returns
  normally (no exception), with a score of 0 for every row, an empty metrics map and a
  confidence of 0 for every row.
\<close>

theorem trainer_below_threshold:
  "length (rows X) < 5 \<Longrightarrow>
     train_and_predict noise fit X
       = Inr (replicate (length (rows X)) 0, Map.empty, replicate (length (rows X)) (Num 0))"
  by (simp add: train_and_predict_def)

theorem trainer_below_threshold_witness:
  "length (rows sample_X4) < 5
   \<and> train_and_predict (\<lambda>i. 0) sample_fit sample_X4
       = Inr ([0, 0, 0, 0], Map.empty, [Num 0, Num 0, Num 0, Num 0])"
proof -
  have l: "length (rows sample_X4) < 5" by (simp add: sample_X4_def)
  have n: "length (rows sample_X4) = 4" by (simp add: sample_X4_def)
  from trainer_below_threshold [OF l, of "\<lambda>i. 0" sample_fit] l n show ?thesis
    by (simp add: numeral_eq_Suc)
qed

text \<open>
  Claim C2: for a table of at least 5 rows the confidence of a row is the base
  confidence \<open>1 / (1 + std)\<close> of the final predictions times one minus the share of the
  row's feature cells that were missing before imputation, clipped to [0,1]. The
  source has this adjustment (line 277), and on the table before imputation it gives
  the claimed value; but the table it is given has already been through
  \<^verbatim>\<open>fillna(0)\<close> (line 231), so no cell is missing any more. For the race of five
  entries whose draw numbers are all 0, two of the forty cells of every row are missing
  before imputation: whatever the other cells, the noise and the fitted models are,
  the trainer returns the base confidence for every row, where the claimed value is at
  most 19/20 of it.
\<close>

theorem confidence_ignores_missing_cells:
  assumes "features_before_fillna others zero_draw_race = Some F"
    and "train_and_predict noise fit (fillna0 F) = Inr (p, cv, conf)"
    and "3 \<le> length p"
  shows "conf = replicate 5 (Num (1 / (1 + np_std p)))
    \<and> calculate_prediction_confidence p F = spec_confidence p F
    \<and> length (spec_confidence p F) = 5
    \<and> (\<forall>c\<in>set (spec_confidence p F).
          \<exists>q. c = Num q \<and> q \<le> 19 / 20 * (1 / (1 + np_std p)) \<and> q < 1 / (1 + np_std p))"
proof -
  from assms(1) have F: "F = \<lparr>columns = feature_names,
           rows = [feature_row (others 0) (9 / 10) 0 0, feature_row (others 1) (19 / 10) 0 0,
                   feature_row (others 2) (39 / 10) 0 0, feature_row (others 3) (49 / 10) 0 0,
                   feature_row (others 4) (99 / 10) 0 0]\<rparr>"
    by (simp add: features_zero_draw)
  then have cols: "columns F = feature_names" and len: "length (rows F) = 5" by simp_all
  have ne: "columns F \<noteq> []" by (simp add: cols feature_names_def)
  have nan: "\<forall>r\<in>set (rows F). r ''draw_normalized'' = NaN \<and> r ''odds_draw_interaction'' = NaN"
    by (simp add: F feature_row_zero_max)
  have five: "5 \<le> length (rows (fillna0 F))" by (simp add: length_rows_fillna0 len)
  from train_and_predict_above [OF assms(2) five]
  have "conf = calculate_prediction_confidence p (fillna0 F)" by simp
  with confidence_fillna0 [OF assms(3) ne]
  have 1: "conf = replicate 5 (Num (1 / (1 + np_std p)))" by (simp add: len)
  have 2: "calculate_prediction_confidence p F = spec_confidence p F"
    by (rule confidence_eq_spec [OF assms(3) ne])
  have 3: "length (spec_confidence p F) = 5" by (simp add: spec_confidence_def len)
  have 4: "\<forall>c\<in>set (spec_confidence p F).
          \<exists>q. c = Num q \<and> q \<le> 19 / 20 * (1 / (1 + np_std p)) \<and> q < 1 / (1 + np_std p)"
  proof
    fix c assume "c \<in> set (spec_confidence p F)"
    then obtain r where r: "r \<in> set (rows F)"
      and c: "c = Num (np_clip (1 / (1 + np_std p)
                  * (1 - real (isna_count F r) / real (length (columns F)))) 0 1)"
      by (auto simp add: spec_confidence_def)
    from nan r have "2 \<le> isna_count F r \<and> isna_count F r \<le> 40"
      by (intro isna_count_zero_draw cols) simp_all
    with clipped_share [of "1 / (1 + np_std p)" "isna_count F r"] confidence_base_range [of p]
    have "np_clip (1 / (1 + np_std p) * (1 - real (isna_count F r) / 40)) 0 1
            \<le> 19 / 20 * (1 / (1 + np_std p))
          \<and> np_clip (1 / (1 + np_std p) * (1 - real (isna_count F r) / 40)) 0 1
            < 1 / (1 + np_std p)" by blast
    with c show "\<exists>q. c = Num q \<and> q \<le> 19 / 20 * (1 / (1 + np_std p)) \<and> q < 1 / (1 + np_std p)"
      by (simp add: cols length_feature_names)
  qed
  from 1 2 3 4 show ?thesis by blast
qed

theorem confidence_ignores_missing_cells_witness:
  "features_before_fillna (\<lambda>i c. Num 1) zero_draw_race = Some zero_draw_features
   \<and> train_and_predict (\<lambda>i. 0) sample_fit (fillna0 zero_draw_features)
       = Inr ([7 / 2, 1 / 2, 5 / 2, 3 / 2, 2], Map.empty,
              [Num (1 / 2), Num (1 / 2), Num (1 / 2), Num (1 / 2), Num (1 / 2)])
   \<and> 3 \<le> length [7 / 2, 1 / 2, 5 / 2, 3 / 2, 2 :: real]
   \<and> [Num (1 / 2), Num (1 / 2), Num (1 / 2), Num (1 / 2), Num (1 / 2)]
       = replicate 5 (Num (1 / (1 + np_std [7 / 2, 1 / 2, 5 / 2, 3 / 2, 2])))
   \<and> calculate_prediction_confidence [7 / 2, 1 / 2, 5 / 2, 3 / 2, 2] zero_draw_features
       = [Num (19 / 40), Num (19 / 40), Num (19 / 40), Num (19 / 40), Num (19 / 40)]
   \<and> spec_confidence [7 / 2, 1 / 2, 5 / 2, 3 / 2, 2] zero_draw_features
       = [Num (19 / 40), Num (19 / 40), Num (19 / 40), Num (19 / 40), Num (19 / 40)]"
proof -
  have a: "features_before_fillna (\<lambda>i c. Num 1) zero_draw_race = Some zero_draw_features"
    by (simp add: features_zero_draw zero_draw_features_def)
  have l: "3 \<le> length [7 / 2, 1 / 2, 5 / 2, 3 / 2, 2 :: real]" by simp
  from confidence_ignores_missing_cells [OF a train_zero_draw [of "\<lambda>i. 0"] l]
  have "[Num (1 / 2), Num (1 / 2), Num (1 / 2), Num (1 / 2), Num (1 / 2)]
       = replicate 5 (Num (1 / (1 + np_std [7 / 2, 1 / 2, 5 / 2, 3 / 2, 2])))"
    and "calculate_prediction_confidence [7 / 2, 1 / 2, 5 / 2, 3 / 2, 2] zero_draw_features
       = spec_confidence [7 / 2, 1 / 2, 5 / 2, 3 / 2, 2] zero_draw_features"
    by blast+
  with a train_zero_draw [of "\<lambda>i. 0"] l spec_confidence_zero_draw show ?thesis
    by (simp only:)
qed

text \<open>
  Claim C8: every confidence the pipeline assigns is a number between 0 and 1: the one
  computed by the trainer, the zeros of the trainer below five rows, and the 0.5 set
  when the ensemble is disabled or its step raised; and every entry gets one.
\<close>

theorem confidence_in_unit_interval:
  "(c \<in> set (confidence_column use_ml n (ml_stage n X_ml noise fit))
      \<longrightarrow> (\<exists>x. c = Num x \<and> 0 \<le> x \<and> x \<le> 1))
   \<and> (train_and_predict noise fit X = Inr (p, cv, conf) \<and> c \<in> set conf
      \<longrightarrow> (\<exists>x. c = Num x \<and> 0 \<le> x \<and> x \<le> 1))
   \<and> length (confidence_column use_ml n (ml_stage n X_ml noise fit)) = n"
proof -
  have half: "\<exists>x::real. Num (1 / 2) = Num x \<and> 0 \<le> x \<and> x \<le> 1"
    by (rule exI [of _ "1 / 2"]) simp
  have 1: "c \<in> set (confidence_column use_ml n (ml_stage n X_ml noise fit))
      \<longrightarrow> (\<exists>x. c = Num x \<and> 0 \<le> x \<and> x \<le> 1)"
  proof
    assume m: "c \<in> set (confidence_column use_ml n (ml_stage n X_ml noise fit))"
    show "\<exists>x. c = Num x \<and> 0 \<le> x \<and> x \<le> 1"
    proof (cases "use_ml \<and> (\<exists>s cs. ml_stage n X_ml noise fit = Inr (s, cs))")
      case True
      then obtain s cs where ms: "ml_stage n X_ml noise fit = Inr (s, cs)" and u: use_ml
        by blast
      from ms obtain X' p' cv' where "train_and_predict noise fit X' = Inr (p', cv', cs)"
        by (auto simp add: ml_stage_def split: sum.splits prod.splits if_splits)
      moreover from m ms u have "c \<in> set cs" by (simp add: confidence_column_def)
      ultimately show ?thesis using train_and_predict_range by blast
    next
      case False
      then have "confidence_column use_ml n (ml_stage n X_ml noise fit) = replicate n (Num (1 / 2))"
        by (cases "ml_stage n X_ml noise fit") (auto simp add: confidence_column_def)
      with m have "c = Num (1 / 2)" by auto
      with half show ?thesis by blast
    qed
  qed
  have 2: "train_and_predict noise fit X = Inr (p, cv, conf) \<and> c \<in> set conf
      \<longrightarrow> (\<exists>x. c = Num x \<and> 0 \<le> x \<and> x \<le> 1)"
    using train_and_predict_range by blast
  have 3: "length (confidence_column use_ml n (ml_stage n X_ml noise fit)) = n"
    by (cases "ml_stage n X_ml noise fit")
       (auto simp add: confidence_column_def ml_stage_def split: sum.splits prod.splits if_splits)
  from 1 2 3 show ?thesis by blast
qed

theorem confidence_in_unit_interval_witness:
  "Num (1 / 2) \<in> set (confidence_column True 5
        (ml_stage 5 (Inr (fillna0 sample_features)) (\<lambda>i. 0) sample_fit))
   \<and> Num 0 \<in> set (confidence_column True 4 (ml_stage 4 (Inr sample_X4) (\<lambda>i. 0) sample_fit))
   \<and> Num (1 / 2) \<in> set (confidence_column False 4 (ml_stage 4 (Inr sample_X4) (\<lambda>i. 0) sample_fit))
   \<and> Num (1 / 2) \<in> set (confidence_column True 4 (ml_stage 4 (Inl KeyError) (\<lambda>i. 0) sample_fit))
   \<and> train_and_predict (\<lambda>i. 0) sample_fit (fillna0 sample_features)
       = Inr ([7 / 2, 1 / 2, 5 / 2, 3 / 2, 2], Map.empty,
              [Num (1 / 2), Num (1 / 2), Num (1 / 2), Num (1 / 2), Num (1 / 2)])
   \<and> (\<exists>x::real. Num (1 / 2) = Num x \<and> 0 \<le> x \<and> x \<le> 1)
   \<and> (\<exists>x::real. Num 0 = Num x \<and> 0 \<le> x \<and> x \<le> 1)
   \<and> length (confidence_column True 5
        (ml_stage 5 (Inr (fillna0 sample_features)) (\<lambda>i. 0) sample_fit)) = 5"
proof -
  have a: "Num (1 / 2) \<in> set (confidence_column True 5
        (ml_stage 5 (Inr (fillna0 sample_features)) (\<lambda>i. 0) sample_fit))"
    by (simp add: ml_stage_sample confidence_column_def)
  have b: "Num 0 \<in> set (confidence_column True 4 (ml_stage 4 (Inr sample_X4) (\<lambda>i. 0) sample_fit))"
    by (simp add: ml_stage_sample4 confidence_column_def)
  have c: "Num (1 / 2) \<in> set (confidence_column False 4 (ml_stage 4 (Inr sample_X4) (\<lambda>i. 0) sample_fit))"
    by (simp add: confidence_column_def numeral_eq_Suc)
  have d: "Num (1 / 2) \<in> set (confidence_column True 4 (ml_stage 4 (Inl KeyError) (\<lambda>i. 0) sample_fit))"
    by (simp add: confidence_column_def ml_stage_def numeral_eq_Suc)
  from confidence_in_unit_interval [of "Num (1 / 2)" True 5 "Inr (fillna0 sample_features)"
         "\<lambda>i. 0" sample_fit "fillna0 sample_features" "[7 / 2, 1 / 2, 5 / 2, 3 / 2, 2]" Map.empty
         "[Num (1 / 2), Num (1 / 2), Num (1 / 2), Num (1 / 2), Num (1 / 2)]"]
       confidence_in_unit_interval [of "Num 0" True 4 "Inr sample_X4" "\<lambda>i. 0" sample_fit]
       a b c d train_sample [of "\<lambda>i. 0"]
  show ?thesis by blast
qed

section \<open>Claims about ranking and blend\<close>

text \<open>
  Claim C5: when the ensemble is enabled and its step succeeded, the final score of
  every entry is \<open>(1 - w)\<close> times its normalized traditional score plus \<open>w\<close> times its
  normalized ensemble score, for every blend weight \<open>w\<close>; at \<open>w = 0\<close> the final scores
  are the normalized traditional scores, at \<open>w = 1\<close> the normalized ensemble scores.
\<close>

theorem blend_formula:
  assumes "use_ml" and "ml_stage (length odds) X_ml noise fit = Inr (ml_score, conf)"
  shows "length (score_final use_ml w odds (ml_stage (length odds) X_ml noise fit)) = length odds
    \<and> (\<forall>i<length odds.
          score_final use_ml w odds (ml_stage (length odds) X_ml noise fit) ! i
          = (1 - w) * traditional_score odds ! i + w * ml_score ! i)
    \<and> (w = 0 \<longrightarrow> score_final use_ml w odds (ml_stage (length odds) X_ml noise fit)
                   = traditional_score odds)
    \<and> (w = 1 \<longrightarrow> score_final use_ml w odds (ml_stage (length odds) X_ml noise fit)
                   = ml_score)"
proof -
  from ml_stage_Inr [OF assms(2)] have l: "length ml_score = length odds" by simp
  have lt: "length (traditional_score odds) = length ml_score"
    by (simp add: l length_traditional_score)
  have sf: "score_final use_ml w odds (ml_stage (length odds) X_ml noise fit)
            = map (\<lambda>(t, m). (1 - w) * t + w * m) (zip (traditional_score odds) ml_score)"
    using assms by (simp add: score_final_def)
  have 1: "length (score_final use_ml w odds (ml_stage (length odds) X_ml noise fit)) = length odds"
    by (simp add: sf l length_traditional_score)
  have 2: "\<forall>i<length odds.
          score_final use_ml w odds (ml_stage (length odds) X_ml noise fit) ! i
          = (1 - w) * traditional_score odds ! i + w * ml_score ! i"
    by (simp add: sf l length_traditional_score)
  have 3: "w = 0 \<longrightarrow> score_final use_ml w odds (ml_stage (length odds) X_ml noise fit)
                   = traditional_score odds"
  proof
    assume "w = 0"
    then have "map (\<lambda>(t, m). (1 - w) * t + w * m) (zip (traditional_score odds) ml_score)
               = map (\<lambda>(t, m). t) (zip (traditional_score odds) ml_score)" by simp
    with map_fst_zip_same [OF lt] sf
    show "score_final use_ml w odds (ml_stage (length odds) X_ml noise fit)
          = traditional_score odds" by simp
  qed
  have 4: "w = 1 \<longrightarrow> score_final use_ml w odds (ml_stage (length odds) X_ml noise fit)
                   = ml_score"
  proof
    assume "w = 1"
    then have "map (\<lambda>(t, m). (1 - w) * t + w * m) (zip (traditional_score odds) ml_score)
               = map (\<lambda>(t, m). m) (zip (traditional_score odds) ml_score)" by simp
    with map_snd_zip_same [OF lt] sf
    show "score_final use_ml w odds (ml_stage (length odds) X_ml noise fit) = ml_score"
      by simp
  qed
  from 1 2 3 4 show ?thesis by blast
qed

theorem blend_formula_witness:
  "ml_stage (length sample_odds) (Inr (fillna0 sample_features)) (\<lambda>i. 0) sample_fit
     = Inr ([1, 0, 2 / 3, 1 / 3, 1 / 2],
            [Num (1 / 2), Num (1 / 2), Num (1 / 2), Num (1 / 2), Num (1 / 2)])
   \<and> traditional_score sample_odds = [1, 4 / 9, 1 / 6, 1 / 9, 0]
   \<and> (1 :: nat) < length sample_odds
   \<and> score_final True (7 / 10) sample_odds
        (ml_stage (length sample_odds) (Inr (fillna0 sample_features)) (\<lambda>i. 0) sample_fit) ! 1
      = (1 - 7 / 10) * (4 / 9) + 7 / 10 * 0
   \<and> score_final True 0 sample_odds
        (ml_stage (length sample_odds) (Inr (fillna0 sample_features)) (\<lambda>i. 0) sample_fit)
      = [1, 4 / 9, 1 / 6, 1 / 9, 0]
   \<and> score_final True 1 sample_odds
        (ml_stage (length sample_odds) (Inr (fillna0 sample_features)) (\<lambda>i. 0) sample_fit)
      = [1, 0, 2 / 3, 1 / 3, 1 / 2]"
proof -
  have n: "length sample_odds = 5" by (simp add: sample_odds_def)
  have m: "ml_stage (length sample_odds) (Inr (fillna0 sample_features)) (\<lambda>i. 0) sample_fit
     = Inr ([1, 0, 2 / 3, 1 / 3, 1 / 2],
            [Num (1 / 2), Num (1 / 2), Num (1 / 2), Num (1 / 2), Num (1 / 2)])"
    by (simp only: n ml_stage_sample normalize_sample)
  have i: "(1 :: nat) < length sample_odds" by (simp add: n)
  from blend_formula [OF TrueI m, of "7 / 10"] blend_formula [OF TrueI m, of 0]
       blend_formula [OF TrueI m, of 1] m i traditional_sample
  show ?thesis by simp
qed

end
